theory Spec2Isabelle
  imports Main
begin

section \<open>The dashboard test server\<close>

text \<open>
  A shallow embedding of \<^verbatim>\<open>dashboard/test-server.py\<close>: one request handler,
  \<^verbatim>\<open>TestDashboardHandler.do_GET\<close>, on top of the standard library's
  \<^verbatim>\<open>SimpleHTTPRequestHandler\<close>.
\<close>

subsection \<open>Paths and the filesystem\<close>

text \<open>
  A \<^verbatim>\<open>pathlib\<close> path is the list of its components below the root.
  \<^verbatim>\<open>__file__\<close> is the absolute path of the script (what Python 3.9 and later
  give the main module), so every path the handler builds is absolute.
  \<^verbatim>\<open>p.parent\<close> drops the last component and the root is its own parent;
  \<^verbatim>\<open>p / c\<close> appends one.
\<close>

type_synonym fpath = "string list"

type_synonym bytes = "char list"

definition parent :: "fpath \<Rightarrow> fpath" where
  "parent p = butlast p"

definition joinpath :: "fpath \<Rightarrow> string \<Rightarrow> fpath" where
  "joinpath p c = p @ [c]"

text \<open>
  What the filesystem holds at a path: a file, with its bytes and whether the process may
  read it, or a directory, with the names of its entries and whether the process may
  search it (reach what lies below it).
\<close>

datatype node = File bytes bool | Dir "string list" bool

type_synonym filesystem = "fpath \<Rightarrow> node option"

datatype os_error =
  FileNotFoundError | NotADirectoryError | PermissionError | IsADirectoryError

text \<open>
  The filesystem operations a handler performs are recorded in the order it performs
  them.
\<close>

datatype fs_op = Exists fpath | OpenRead fpath | ListDir fpath | WriteFile fpath

fun is_write :: "fs_op \<Rightarrow> bool" where
  "is_write (WriteFile p) = True"
| "is_write (Exists p) = False"
| "is_write (OpenRead p) = False"
| "is_write (ListDir p) = False"

fun is_read :: "fs_op \<Rightarrow> bool" where
  "is_read (OpenRead p) = True"
| "is_read (ListDir p) = True"
| "is_read (Exists p) = False"
| "is_read (WriteFile p) = False"

text \<open>
  What the process sees when a request arrives: the filesystem, the working directory,
  the script's path, and the two values the base class puts into every response by itself
  (its version string and the current time, formatted).
\<close>

record env =
  fs :: filesystem
  cwd :: fpath
  script_file :: fpath
  version_string :: string
  date_time_string :: string

text \<open>
  Path resolution, as \<^verbatim>\<open>stat\<close> does it: \<open>walk f q cs\<close> stands at \<open>q\<close> with the
  components \<open>cs\<close> still to go. A missing component is \<^verbatim>\<open>ENOENT\<close>, a file in the
  place of a directory \<^verbatim>\<open>ENOTDIR\<close>, a directory that may not be searched
  \<^verbatim>\<open>EACCES\<close>.
\<close>

fun walk :: "filesystem \<Rightarrow> fpath \<Rightarrow> string list \<Rightarrow> os_error + node" where
  "walk f q [] = (case f q of None \<Rightarrow> Inl FileNotFoundError | Some n \<Rightarrow> Inr n)"
| "walk f q (c # cs) =
     (case f q of
        None \<Rightarrow> Inl FileNotFoundError
      | Some (File b r) \<Rightarrow> Inl NotADirectoryError
      | Some (Dir names x) \<Rightarrow> if x then walk f (q @ [c]) cs else Inl PermissionError)"

definition stat :: "env \<Rightarrow> fpath \<Rightarrow> os_error + node" where
  "stat e p = walk (fs e) [] p"

text \<open>
  \<^verbatim>\<open>Path.exists()\<close>: true of files and of directories, false when \<^verbatim>\<open>stat\<close>
  fails with \<^verbatim>\<open>ENOENT\<close> or \<^verbatim>\<open>ENOTDIR\<close>; every other error of \<^verbatim>\<open>stat\<close> is
  raised again.
\<close>

definition path_exists :: "env \<Rightarrow> fpath \<Rightarrow> os_error + bool" where
  "path_exists e p =
     (case stat e p of
        Inr n \<Rightarrow> Inr True
      | Inl FileNotFoundError \<Rightarrow> Inr False
      | Inl NotADirectoryError \<Rightarrow> Inr False
      | Inl PermissionError \<Rightarrow> Inl PermissionError
      | Inl IsADirectoryError \<Rightarrow> Inl IsADirectoryError)"

text \<open>
  \<^verbatim>\<open>open(p, 'rb').read()\<close>: the bytes of a file the process may read, an error
  otherwise.
\<close>

definition open_rb_read :: "env \<Rightarrow> fpath \<Rightarrow> os_error + bytes" where
  "open_rb_read e p =
     (case stat e p of
        Inl err \<Rightarrow> Inl err
      | Inr (Dir names x) \<Rightarrow> Inl IsADirectoryError
      | Inr (File b r) \<Rightarrow> if r then Inr b else Inl PermissionError)"

subsection \<open>The request handler's state\<close>

text \<open>
  One handler object serves one request. \<open>path\<close> and \<open>headers_in\<close>
  come from the request; the other fields are what the handler has
  sent and done so far: the status line, the response headers in order, whether the
  header block was ended, the body bytes written to \<^verbatim>\<open>wfile\<close>, the filesystem
  operations performed, and the exception that left \<^verbatim>\<open>do_GET\<close>, if any.
\<close>

record request =
  req_path :: string
  req_headers :: "(string \<times> string) list"

record handler =
  path :: string
  headers_in :: "(string \<times> string) list"
  sent_status :: "nat option"
  sent_headers :: "(string \<times> string) list"
  headers_ended :: bool
  wfile :: bytes
  fs_ops :: "fs_op list"
  raised :: "os_error option"

definition new_handler :: "request \<Rightarrow> handler" where
  "new_handler r =
     \<lparr> path = req_path r, headers_in = req_headers r,
       sent_status = None, sent_headers = [], headers_ended = False, wfile = [],
       fs_ops = [], raised = None \<rparr>"

text \<open>
  The base class's \<^verbatim>\<open>send_response\<close> sends the status line and then a
  \<^verbatim>\<open>Server\<close> and a \<^verbatim>\<open>Date\<close> header of its own.
\<close>

definition send_header :: "string \<Rightarrow> string \<Rightarrow> handler \<Rightarrow> handler" where
  "send_header k v h = h\<lparr>sent_headers := sent_headers h @ [(k, v)]\<rparr>"

definition send_response :: "env \<Rightarrow> nat \<Rightarrow> handler \<Rightarrow> handler" where
  "send_response e code h =
     send_header ''Date'' (date_time_string e)
       (send_header ''Server'' (version_string e) (h\<lparr>sent_status := Some code\<rparr>))"

definition end_headers :: "handler \<Rightarrow> handler" where
  "end_headers h = h\<lparr>headers_ended := True\<rparr>"

definition wfile_write :: "bytes \<Rightarrow> handler \<Rightarrow> handler" where
  "wfile_write b h = h\<lparr>wfile := wfile h @ b\<rparr>"

definition log_op :: "fs_op \<Rightarrow> handler \<Rightarrow> handler" where
  "log_op x h = h\<lparr>fs_ops := fs_ops h @ [x]\<rparr>"

subsection \<open>The mock payload and its serialisation\<close>

text \<open>
  The Python values \<^verbatim>\<open>mock_data\<close> is built from: strings, integers, one float,
  one boolean, and dictionaries, which keep their insertion order. The float in the
  payload has a whole value; \<open>JFloat i\<close> stands for the float equal to the integer
  \<open>i\<close>, whose \<^verbatim>\<open>repr\<close> (for magnitudes below \<open>10^16\<close>) is that integer followed
  by \<^verbatim>\<open>.0\<close>.
\<close>

datatype json = JStr string | JInt int | JFloat int | JBool bool | JObj "(string \<times> json) list"

definition mock_data :: json where
  "mock_data = JObj
     [(''timestamp'', JStr ''2025-01-21T12:00:00Z''),
      (''status'', JStr ''success''),
      (''total_tests'', JInt 437),
      (''passed'', JInt 437),
      (''failed'', JInt 0),
      (''ignored'', JInt 0),
      (''pass_rate'', JFloat 100),
      (''test_suites'', JObj
         [(''library'', JObj
             [(''name'', JStr ''Library Unit Tests''), (''count'', JInt 396)]),
          (''infrastructure'', JObj
             [(''name'', JStr ''Infrastructure Integration Tests''), (''count'', JInt 19)]),
          (''jetstream'', JObj
             [(''name'', JStr ''JetStream Event Store Tests''), (''count'', JInt 6)]),
          (''persistence'', JObj
             [(''name'', JStr ''Persistence Integration Tests''), (''count'', JInt 7)])]),
      (''environment'', JObj
         [(''rust_version'', JStr ''1.75.0''),
          (''nats_required'', JBool True),
          (''nats_endpoint'', JStr ''localhost:4222'')])]"

text \<open>
  \<^verbatim>\<open>json.dumps(obj, indent=2)\<close> as the library's encoder computes it: decimal
  integers, strings quoted with everything outside the printable ASCII range escaped,
  \<^verbatim>\<open>true\<close>/\<^verbatim>\<open>false\<close>, and a dictionary as its items, one per line, indented
  by \<open>indent\<close> spaces per nesting level and separated by a comma, with
  \<^verbatim>\<open>": "\<close> between key and value; an empty dictionary is \<^verbatim>\<open>{}\<close>.
\<close>

definition digit_char :: "nat \<Rightarrow> char" where
  "digit_char d = ''0123456789'' ! d"

fun nat_repr :: "nat \<Rightarrow> string" where
  "nat_repr n =
     (if n < 10 then [digit_char n] else nat_repr (n div 10) @ [digit_char (n mod 10)])"

declare nat_repr.simps [simp del]

definition int_repr :: "int \<Rightarrow> string" where
  "int_repr i = (if i < 0 then CHR ''-'' # nat_repr (nat (- i)) else nat_repr (nat i))"

definition float_repr :: "int \<Rightarrow> string" where
  "float_repr i = int_repr i @ ''.0''"

definition hex_char :: "nat \<Rightarrow> char" where
  "hex_char d = ''0123456789abcdef'' ! d"

definition escape_char :: "char \<Rightarrow> string" where
  "escape_char c =
     (if c = CHR 0x5C then [CHR 0x5C, CHR 0x5C]
      else if c = CHR 0x22 then [CHR 0x5C, CHR 0x22]
      else if c = CHR 0x08 then [CHR 0x5C, CHR ''b'']
      else if c = CHR 0x0C then [CHR 0x5C, CHR ''f'']
      else if c = CHR 0x0A then [CHR 0x5C, CHR ''n'']
      else if c = CHR 0x0D then [CHR 0x5C, CHR ''r'']
      else if c = CHR 0x09 then [CHR 0x5C, CHR ''t'']
      else if (of_char c :: nat) < 32 \<or> 126 < (of_char c :: nat)
        then [CHR 0x5C, CHR ''u'', CHR ''0'', CHR ''0'',
              hex_char ((of_char c :: nat) div 16), hex_char ((of_char c :: nat) mod 16)]
      else [c])"

definition encode_basestring_ascii :: "string \<Rightarrow> string" where
  "encode_basestring_ascii s = CHR 0x22 # concat (map escape_char s) @ [CHR 0x22]"

definition newline_indent :: "nat \<Rightarrow> nat \<Rightarrow> string" where
  "newline_indent indent level = CHR 0x0A # replicate (indent * level) CHR '' ''"

fun join :: "string \<Rightarrow> string list \<Rightarrow> string" where
  "join sep [] = []"
| "join sep [x] = x"
| "join sep (x # y # ys) = x @ sep @ join sep (y # ys)"

fun iterencode :: "nat \<Rightarrow> nat \<Rightarrow> json \<Rightarrow> string" where
  "iterencode indent level (JStr s) = encode_basestring_ascii s"
| "iterencode indent level (JBool b) = (if b then ''true'' else ''false'')"
| "iterencode indent level (JInt i) = int_repr i"
| "iterencode indent level (JFloat i) = float_repr i"
| "iterencode indent level (JObj dct) =
     (if dct = [] then ''{}''
      else ''{'' @ newline_indent indent (level + 1)
           @ join ('','' @ newline_indent indent (level + 1))
               (map (\<lambda>(key, v). encode_basestring_ascii key @ '': ''
                                   @ iterencode indent (level + 1) v) dct)
           @ newline_indent indent level @ ''}'')"

definition dumps :: "nat \<Rightarrow> json \<Rightarrow> string" where
  "dumps indent obj = iterencode indent 0 obj"

text \<open>
  \<^verbatim>\<open>str.encode()\<close>: UTF-8. A \<open>char\<close> holds a code point below 256; those below
  128 are one byte, the others two.
\<close>

definition utf8_char :: "char \<Rightarrow> bytes" where
  "utf8_char c =
     (let n = (of_char c :: nat)
      in if n < 128 then [c] else [char_of (192 + n div 64), char_of (128 + n mod 64)])"

definition encode :: "string \<Rightarrow> bytes" where
  "encode s = concat (map utf8_char s)"

subsection \<open>The handler\<close>

text \<open>
  \<^verbatim>\<open>Path(__file__).parent.parent / 'test-results' / 'summary.json'\<close>.
\<close>

definition test_results_path :: "env \<Rightarrow> fpath" where
  "test_results_path e =
     joinpath (joinpath (parent (parent (script_file e))) ''test-results'') ''summary.json''"

text \<open>
  \<^verbatim>\<open>TestDashboardHandler.do_GET\<close>. The inherited \<^verbatim>\<open>do_GET\<close> of the base
  class, which the repository does not contain, is the parameter \<open>super_do_GET\<close>.
  Nothing in the handler catches an exception. When \<^verbatim>\<open>exists()\<close> raises, nothing has
  been sent yet. In the branch that serves the results file the header block is sent
  before the file is opened, so a failing \<^verbatim>\<open>open\<close> leaves the handler with the
  status and headers sent, no body, and the exception.
\<close>

definition do_GET :: "(env \<Rightarrow> handler \<Rightarrow> handler) \<Rightarrow> env \<Rightarrow> handler \<Rightarrow> handler" where
  "do_GET super_do_GET e h =
     (if path h = ''/'' then super_do_GET e (h\<lparr>path := ''/index.html''\<rparr>)
      else if path h = ''/test-results/summary.json'' then
        (let p = test_results_path e;
             h0 = log_op (Exists p) h
         in case path_exists e p of
              Inl err \<Rightarrow> h0\<lparr>raised := Some err\<rparr>
            | Inr found \<Rightarrow>
                if found then
                  (let h1 = send_response e 200 h0;
                       h2 = send_header ''Content-type'' ''application/json'' h1;
                       h3 = send_header ''Access-Control-Allow-Origin'' ''*'' h2;
                       h4 = end_headers h3;
                       h5 = log_op (OpenRead p) h4
                   in case open_rb_read e p of
                        Inl err \<Rightarrow> h5\<lparr>raised := Some err\<rparr>
                      | Inr b \<Rightarrow> wfile_write b h5)
                else
                  (let h1 = send_response e 200 h0;
                       h2 = send_header ''Content-type'' ''application/json'' h1;
                       h3 = send_header ''Access-Control-Allow-Origin'' ''*'' h2;
                       h4 = end_headers h3
                   in wfile_write (encode (dumps 2 mock_data)) h4))
      else super_do_GET e h)"

text \<open>
  The main block changes the working directory to \<^verbatim>\<open>Path(__file__).parent\<close> and
  then serves; every request is handled by a fresh handler.
\<close>

definition chdir :: "fpath \<Rightarrow> env \<Rightarrow> env" where
  "chdir d e = e\<lparr>cwd := d\<rparr>"

definition main_env :: "env \<Rightarrow> env" where
  "main_env e = chdir (parent (script_file e)) e"

definition handle :: "(env \<Rightarrow> handler \<Rightarrow> handler) \<Rightarrow> env \<Rightarrow> request \<Rightarrow> handler" where
  "handle super_do_GET e r = do_GET super_do_GET (main_env e) (new_handler r)"

text \<open>
  How a client reads a response header: by name, ignoring the case of ASCII letters,
  taking the first header of that name.
\<close>

definition ascii_lower :: "char \<Rightarrow> char" where
  "ascii_lower c =
     (case map_of (zip ''ABCDEFGHIJKLMNOPQRSTUVWXYZ'' ''abcdefghijklmnopqrstuvwxyz'') c of
        None \<Rightarrow> c
      | Some d \<Rightarrow> d)"

definition header :: "string \<Rightarrow> handler \<Rightarrow> string option" where
  "header name h =
     map_of (map (\<lambda>(k, v). (map ascii_lower k, v)) (sent_headers h)) (map ascii_lower name)"

subsection \<open>Reading the payload back\<close>

text \<open>
  What a consumer of the body does: decode the bytes as UTF-8 and parse the text as JSON.
  The parser accepts objects, strings, integers, numbers with a zero fraction,
  \<^verbatim>\<open>true\<close> and \<^verbatim>\<open>false\<close>, which is the part of JSON the payload uses, and
  rejects everything else. Its recursion is bounded by a fuel argument; \<open>loads\<close> starts
  it with more fuel than the text has characters.
\<close>

fun utf8_decode :: "bytes \<Rightarrow> string option" where
  "utf8_decode [] = Some []"
| "utf8_decode [b] = (if (of_char b :: nat) < 128 then Some [b] else None)"
| "utf8_decode (b # c # bs) =
     (if (of_char b :: nat) < 128 then map_option ((#) b) (utf8_decode (c # bs))
      else if ((of_char b :: nat) = 194 \<or> (of_char b :: nat) = 195)
              \<and> 128 \<le> (of_char c :: nat) \<and> (of_char c :: nat) < 192
        then map_option ((#) (char_of (((of_char b :: nat) - 192) * 64 + ((of_char c :: nat) - 128))))
               (utf8_decode bs)
      else None)"

definition is_ws :: "char \<Rightarrow> bool" where
  "is_ws c = (c = CHR '' '' \<or> c = CHR 0x0A \<or> c = CHR 0x0D \<or> c = CHR 0x09)"

fun skip_ws :: "string \<Rightarrow> string" where
  "skip_ws [] = []"
| "skip_ws (c # cs) = (if is_ws c then skip_ws cs else c # cs)"

definition digit_val :: "char \<Rightarrow> nat option" where
  "digit_val c = map_of (zip ''0123456789'' [0 ..< 10]) c"

definition hex_val :: "char \<Rightarrow> nat option" where
  "hex_val c = map_of (zip ''0123456789abcdefABCDEF'' ([0 ..< 16] @ [10 ..< 16])) c"

definition unescape :: "char \<Rightarrow> char option" where
  "unescape c = map_of
     [(CHR 0x22, CHR 0x22), (CHR 0x5C, CHR 0x5C), (CHR ''/'', CHR ''/''),
      (CHR ''b'', CHR 0x08), (CHR ''f'', CHR 0x0C), (CHR ''n'', CHR 0x0A),
      (CHR ''r'', CHR 0x0D), (CHR ''t'', CHR 0x09)] c"

fun scan_digits :: "nat \<Rightarrow> string \<Rightarrow> nat \<times> string" where
  "scan_digits acc [] = (acc, [])"
| "scan_digits acc (c # cs) =
     (case digit_val c of None \<Rightarrow> (acc, c # cs) | Some d \<Rightarrow> scan_digits (10 * acc + d) cs)"

fun scan_string :: "string \<Rightarrow> string \<Rightarrow> (string \<times> string) option" where
  "scan_string acc [] = None"
| "scan_string acc (c # cs) =
     (if c = CHR 0x22 then Some (rev acc, cs)
      else if c = CHR 0x5C then
        (case cs of
           [] \<Rightarrow> None
         | e # cs1 \<Rightarrow>
             (if e = CHR ''u'' then
                (case cs1 of
                   a # b # x # y # cs2 \<Rightarrow>
                     (case (hex_val a, hex_val b, hex_val x, hex_val y) of
                        (Some 0, Some 0, Some hi, Some lo) \<Rightarrow>
                          scan_string (char_of (16 * hi + lo) # acc) cs2
                      | _ \<Rightarrow> None)
                 | _ \<Rightarrow> None)
              else
                (case unescape e of
                   None \<Rightarrow> None
                 | Some d \<Rightarrow> scan_string (d # acc) cs1)))
      else if (of_char c :: nat) < 32 then None
      else scan_string (c # acc) cs)"

definition parse_number :: "string \<Rightarrow> (json \<times> string) option" where
  "parse_number s =
     (let neg = (s \<noteq> [] \<and> hd s = CHR ''-'');
          s1 = (if neg then tl s else s);
          (n, r) = scan_digits 0 s1;
          k = length s1 - length r;
          sgn = (\<lambda>v. if neg then - int v else int v)
      in if k = 0 \<or> (1 < k \<and> hd s1 = CHR ''0'') then None
         else if r \<noteq> [] \<and> hd r = CHR ''.'' then
           (let (f, r2) = scan_digits 0 (tl r)
            in if length (tl r) = length r2 \<or> f \<noteq> 0
                  \<or> (r2 \<noteq> [] \<and> (hd r2 = CHR ''e'' \<or> hd r2 = CHR ''E''))
               then None else Some (JFloat (sgn n), r2))
         else if r \<noteq> [] \<and> (hd r = CHR ''e'' \<or> hd r = CHR ''E'') then None
         else Some (JInt (sgn n), r))"

fun parse_value :: "nat \<Rightarrow> string \<Rightarrow> (json \<times> string) option"
and parse_members ::
  "nat \<Rightarrow> (string \<times> json) list \<Rightarrow> string \<Rightarrow> ((string \<times> json) list \<times> string) option"
where
  "parse_value 0 s = None"
| "parse_value (Suc n) s =
     (case skip_ws s of
        [] \<Rightarrow> None
      | c # cs \<Rightarrow>
          (if c = CHR ''{'' then
             (case skip_ws cs of
                [] \<Rightarrow> None
              | d # ds \<Rightarrow>
                  (if d = CHR ''}'' then Some (JObj [], ds)
                   else map_option (\<lambda>(kvs, r). (JObj kvs, r)) (parse_members n [] (d # ds))))
           else if c = CHR 0x22 then map_option (\<lambda>(t, r). (JStr t, r)) (scan_string [] cs)
           else if take 4 (c # cs) = ''true'' then Some (JBool True, drop 4 (c # cs))
           else if take 5 (c # cs) = ''false'' then Some (JBool False, drop 5 (c # cs))
           else parse_number (c # cs)))"
| "parse_members 0 acc s = None"
| "parse_members (Suc n) acc s =
     (case skip_ws s of
        [] \<Rightarrow> None
      | q # cs \<Rightarrow>
          (if q \<noteq> CHR 0x22 then None
           else
             (case scan_string [] cs of
                None \<Rightarrow> None
              | Some (k, r1) \<Rightarrow>
                  (case skip_ws r1 of
                     [] \<Rightarrow> None
                   | c # r2 \<Rightarrow>
                       (if c \<noteq> CHR '':'' then None
                        else
                          (case parse_value n r2 of
                             None \<Rightarrow> None
                           | Some (v, r3) \<Rightarrow>
                               (case skip_ws r3 of
                                  [] \<Rightarrow> None
                                | d # r4 \<Rightarrow>
                                    (if d = CHR '','' then parse_members n (acc @ [(k, v)]) r4
                                     else if d = CHR ''}'' then Some (acc @ [(k, v)], r4)
                                     else None))))))))"

definition loads :: "string \<Rightarrow> json option" where
  "loads s =
     (case parse_value (Suc (length s)) s of
        None \<Rightarrow> None
      | Some (v, r) \<Rightarrow> if skip_ws r = [] then Some v else None)"

definition loads_bytes :: "bytes \<Rightarrow> json option" where
  "loads_bytes b = (case utf8_decode b of None \<Rightarrow> None | Some s \<Rightarrow> loads s)"

text \<open>Field access on a parsed object; of two equal keys the later one counts.\<close>

fun get_field :: "string \<Rightarrow> json \<Rightarrow> json option" where
  "get_field k (JObj dct) = map_of (rev dct) k"
| "get_field k (JStr s) = None"
| "get_field k (JInt i) = None"
| "get_field k (JFloat i) = None"
| "get_field k (JBool b) = None"

definition int_field :: "string \<Rightarrow> json \<Rightarrow> int option" where
  "int_field k j = (case get_field k j of Some (JInt i) \<Rightarrow> Some i | _ \<Rightarrow> None)"

fun keys_of :: "json \<Rightarrow> string list" where
  "keys_of (JObj dct) = map fst dct"
| "keys_of (JStr s) = []"
| "keys_of (JInt i) = []"
| "keys_of (JFloat i) = []"
| "keys_of (JBool b) = []"

text \<open>The \<^verbatim>\<open>count\<close> of every entry of \<^verbatim>\<open>test_suites\<close>, in order.\<close>

definition suite_counts :: "json \<Rightarrow> int list" where
  "suite_counts j =
     (case get_field ''test_suites'' j of
        Some (JObj suites) \<Rightarrow>
          concat (map (\<lambda>(k, s). case int_field ''count'' s of None \<Rightarrow> [] | Some c \<Rightarrow> [c]) suites)
      | _ \<Rightarrow> [])"

text \<open>The additive relation between the four counters of a summary record.\<close>

definition total_is_sum :: "json \<Rightarrow> bool" where
  "total_is_sum j =
     (case (int_field ''total_tests'' j, int_field ''passed'' j,
            int_field ''failed'' j, int_field ''ignored'' j) of
        (Some t, Some p, Some f, Some i) \<Rightarrow> t = p + f + i
      | _ \<Rightarrow> False)"

subsection \<open>Static file serving\<close>

text \<open>
  Modelled from the spec: the static file serving the handler inherits, which is
  \<^verbatim>\<open>SimpleHTTPRequestHandler.do_GET\<close> of Python's standard library and not part of
  this repository. As the specification describes it, it serves files by relative path
  below the working directory with a content type inferred from the extension, answers
  404 when the file is absent, redirects a directory URL without a trailing slash,
  and serves a directory's index file or else a listing. Percent-escapes, conditional
  requests and the markup of the error and listing pages are left out: the error page is
  its message and a listing is the entry names, one per line.
\<close>

text \<open>
  Modelled from the spec: the path part of the request target, without query and fragment.
\<close>

definition url_path :: "string \<Rightarrow> string" where
  "url_path p = takeWhile (\<lambda>c. c \<noteq> CHR ''?'' \<and> c \<noteq> CHR ''#'') p"

text \<open>
  Modelled from the spec: the request path split at its slashes.
\<close>

fun split_slash :: "string \<Rightarrow> string list" where
  "split_slash [] = [[]]"
| "split_slash (c # cs) =
     (if c = CHR ''/'' then [] # split_slash cs
      else (case split_slash cs of [] \<Rightarrow> [[c]] | w # ws \<Rightarrow> (c # w) # ws))"

text \<open>
  Modelled from the spec: path normalisation; empty and \<^verbatim>\<open>.\<close> components vanish and \<^verbatim>\<open>..\<close> removes the
  component before it, never leaving the root.
\<close>

fun normpath :: "string list \<Rightarrow> string list \<Rightarrow> string list" where
  "normpath acc [] = rev acc"
| "normpath acc (w # ws) =
     (if w = [] \<or> w = ''.'' then normpath acc ws
      else if w = ''..'' then normpath (tl acc) ws
      else normpath (w # acc) ws)"

text \<open>
  Modelled from the spec: files are served by relative path below the working directory.
\<close>

definition translate_path :: "env \<Rightarrow> string \<Rightarrow> fpath" where
  "translate_path e p = cwd e @ normpath [] (split_slash (url_path p))"

text \<open>
  Modelled from the spec: suffix test, for extensions and the trailing slash.
\<close>

definition ends_with :: "string \<Rightarrow> string \<Rightarrow> bool" where
  "ends_with suf s = (length suf \<le> length s \<and> drop (length s - length suf) s = suf)"

text \<open>
  Modelled from the spec: content type inference by extension.
\<close>

definition guess_type :: "fpath \<Rightarrow> string" where
  "guess_type p =
     (let name = (if p = [] then [] else last p)
      in if ends_with ''.html'' name \<or> ends_with ''.htm'' name then ''text/html''
         else if ends_with ''.json'' name then ''application/json''
         else if ends_with ''.js'' name then ''text/javascript''
         else if ends_with ''.css'' name then ''text/css''
         else ''application/octet-stream'')"

text \<open>
  Modelled from the spec: the error response of the mechanism, with the message as its page.
\<close>

definition send_error :: "env \<Rightarrow> nat \<Rightarrow> string \<Rightarrow> handler \<Rightarrow> handler" where
  "send_error e code message h =
     (let body = encode message;
          h1 = send_response e code h;
          h2 = send_header ''Connection'' ''close'' h1;
          h3 = send_header ''Content-Type'' ''text/html;charset=utf-8'' h2;
          h4 = send_header ''Content-Length'' (nat_repr (length body)) h3
      in wfile_write body (end_headers h4))"

text \<open>
  Modelled from the spec: a file that can be opened is sent with status 200, one that cannot
  gives the not-found response.
\<close>

definition send_file :: "env \<Rightarrow> fpath \<Rightarrow> handler \<Rightarrow> handler" where
  "send_file e p h =
     (let h0 = log_op (OpenRead p) h
      in case open_rb_read e p of
           Inl err \<Rightarrow> send_error e 404 ''File not found'' h0
         | Inr b \<Rightarrow>
             (let h1 = send_response e 200 h0;
                  h2 = send_header ''Content-type'' (guess_type p) h1;
                  h3 = send_header ''Content-Length'' (nat_repr (length b)) h2
              in wfile_write b (end_headers h3)))"

text \<open>
  Modelled from the spec: the directory listing, as the entry names.
\<close>

definition list_directory :: "env \<Rightarrow> fpath \<Rightarrow> string list \<Rightarrow> handler \<Rightarrow> handler" where
  "list_directory e p names h =
     (let body = encode (join [CHR 0x0A] names);
          h0 = log_op (ListDir p) h;
          h1 = send_response e 200 h0;
          h2 = send_header ''Content-type'' ''text/html; charset=utf-8'' h1;
          h3 = send_header ''Content-Length'' (nat_repr (length body)) h2
      in wfile_write body (end_headers h3))"

text \<open>
  Modelled from the spec: \<^verbatim>\<open>os.path.isfile\<close>, used to find a directory's index file.
\<close>

definition is_file :: "env \<Rightarrow> fpath \<Rightarrow> bool" where
  "is_file e p = (case stat e p of Inr (File b r) \<Rightarrow> True | _ \<Rightarrow> False)"

text \<open>
  Modelled from the spec: \<^verbatim>\<open>SimpleHTTPRequestHandler.do_GET\<close>, the inherited method
  that \<^verbatim>\<open>super().do_GET()\<close> calls and whose code is in the standard library, not in
  the repository. Every theorem about the handler below holds for an arbitrary inherited
  method; this one serves as the concrete instance.
\<close>

definition simple_do_GET :: "env \<Rightarrow> handler \<Rightarrow> handler" where
  "simple_do_GET e h =
     (let u = url_path (path h);
          p = translate_path e (path h);
          h0 = log_op (Exists p) h
      in case stat e p of
           Inr (Dir names x) \<Rightarrow>
             (if \<not> ends_with ''/'' u then
                (let h1 = send_response e 301 h0;
                     h2 = send_header ''Location'' (u @ ''/'') h1;
                     h3 = send_header ''Content-Length'' ''0'' h2
                 in end_headers h3)
              else if is_file e (joinpath p ''index.html'')
                then send_file e (joinpath p ''index.html'')
                       (log_op (Exists (joinpath p ''index.html'')) h0)
              else if is_file e (joinpath p ''index.htm'')
                then send_file e (joinpath p ''index.htm'')
                       (log_op (Exists (joinpath p ''index.htm''))
                          (log_op (Exists (joinpath p ''index.html'')) h0))
              else list_directory e p names
                     (log_op (Exists (joinpath p ''index.htm''))
                        (log_op (Exists (joinpath p ''index.html'')) h0)))
         | _ \<Rightarrow>
             (if ends_with ''/'' u then send_error e 404 ''File not found'' h0
              else send_file e p h0))"

subsection \<open>Example environments\<close>

definition example_fs :: filesystem where
  "example_fs = Map.empty
     ([] \<mapsto> Dir [''srv'', ''opt''] True,
      [''opt''] \<mapsto> Dir [''dashboard''] True,
      [''srv''] \<mapsto> Dir [''cim''] True,
      [''srv'', ''cim''] \<mapsto> Dir [''dashboard''] True,
      [''srv'', ''cim'', ''dashboard''] \<mapsto> Dir [''index.html'', ''test-server.py''] True,
      [''srv'', ''cim'', ''dashboard'', ''index.html''] \<mapsto> File ''<html></html>'' True,
      [''srv'', ''cim'', ''dashboard'', ''test-server.py'']
        \<mapsto> File ''#!/usr/bin/env python3'' True)"

definition example_results :: bytes where
  "example_results = ''{ }''"

definition example_env :: env where
  "example_env =
     \<lparr> fs = example_fs, cwd = [''home'', ''dev''],
       script_file = [''srv'', ''cim'', ''dashboard'', ''test-server.py''],
       version_string = ''SimpleHTTP/0.6 Python/3.12.3'',
       date_time_string = ''Tue, 21 Jan 2025 12:00:00 GMT'' \<rparr>"

text \<open>With a results file that can be read.\<close>

definition example_env_results :: env where
  "example_env_results =
     example_env\<lparr>fs := example_fs
       ([''srv'', ''cim'', ''test-results''] \<mapsto> Dir [''summary.json''] True,
        [''srv'', ''cim'', ''test-results'', ''summary.json''] \<mapsto> File example_results True)\<rparr>"

text \<open>With a results file that exists and may not be read.\<close>

definition example_env_unreadable :: env where
  "example_env_unreadable =
     example_env\<lparr>fs := example_fs
       ([''srv'', ''cim'', ''test-results''] \<mapsto> Dir [''summary.json''] True,
        [''srv'', ''cim'', ''test-results'', ''summary.json''] \<mapsto> File example_results False)\<rparr>"

text \<open>Without a results file, in a \<^verbatim>\<open>test-results\<close> directory that may not be searched.\<close>

definition example_env_unsearchable :: env where
  "example_env_unsearchable =
     example_env\<lparr>fs := example_fs([''srv'', ''cim'', ''test-results''] \<mapsto> Dir [] False)\<rparr>"

text \<open>Another installation, at another time, without a results file.\<close>

definition example_env_later :: env where
  "example_env_later =
     example_env\<lparr>script_file := [''opt'', ''dashboard'', ''test-server.py''],
                  date_time_string := ''Wed, 22 Jan 2025 08:30:00 GMT''\<rparr>"

text \<open>The script installed in the root directory.\<close>

definition example_env_root :: env where
  "example_env_root =
     example_env\<lparr>script_file := [''test-server.py''],
       fs := Map.empty
         ([] \<mapsto> Dir [''test-server.py'', ''test-results''] True,
          [''test-server.py''] \<mapsto> File ''#!/usr/bin/env python3'' True,
          [''test-results''] \<mapsto> Dir [''summary.json''] True,
          [''test-results'', ''summary.json''] \<mapsto> File ''local'' True)\<rparr>"

definition get_request :: "string \<Rightarrow> request" where
  "get_request p = \<lparr> req_path = p, req_headers = [(''Host'', ''localhost:8080'')] \<rparr>"

section \<open>Properties\<close>

subsection \<open>Auxiliary facts\<close>

lemma test_results_path_main_env [simp]: "test_results_path (main_env e) = test_results_path e"
  by (simp add: test_results_path_def main_env_def chdir_def)

lemma fs_main_env [simp]: "fs (main_env e) = fs e"
  by (simp add: main_env_def chdir_def)

lemma stat_main_env [simp]: "stat (main_env e) p = stat e p"
  by (simp add: stat_def)

lemma path_exists_main_env [simp]: "path_exists (main_env e) p = path_exists e p"
  by (simp add: path_exists_def)

lemma open_rb_read_main_env [simp]: "open_rb_read (main_env e) p = open_rb_read e p"
  by (simp add: open_rb_read_def)

lemma strings_main_env [simp]:
  "version_string (main_env e) = version_string e"
  "date_time_string (main_env e) = date_time_string e"
  by (simp_all add: main_env_def chdir_def)

lemmas handler_ops =
  send_response_def send_header_def end_headers_def wfile_write_def log_op_def new_handler_def

text \<open>The four outcomes of a request for the summary path.\<close>

lemma summary_raises:
  assumes "path_exists e (test_results_path e) = Inl err"
  shows "handle super_do_GET e (r\<lparr>req_path := ''/test-results/summary.json''\<rparr>) =
     \<lparr> path = ''/test-results/summary.json'', headers_in = req_headers r,
       sent_status = None,
       sent_headers = [],
       headers_ended = False, wfile = [],
       fs_ops = [Exists (test_results_path e)],
       raised = Some err \<rparr>"
  using assms by (simp add: handle_def do_GET_def handler_ops Let_def)

lemma summary_absent:
  assumes "path_exists e (test_results_path e) = Inr False"
  shows "handle super_do_GET e (r\<lparr>req_path := ''/test-results/summary.json''\<rparr>) =
     \<lparr> path = ''/test-results/summary.json'', headers_in = req_headers r,
       sent_status = Some 200,
       sent_headers = [(''Server'', version_string e), (''Date'', date_time_string e),
                       (''Content-type'', ''application/json''),
                       (''Access-Control-Allow-Origin'', ''*'')],
       headers_ended = True, wfile = encode (dumps 2 mock_data),
       fs_ops = [Exists (test_results_path e)],
       raised = None \<rparr>"
  using assms by (simp add: handle_def do_GET_def handler_ops Let_def)

lemma summary_file:
  assumes "path_exists e (test_results_path e) = Inr True"
    and "open_rb_read e (test_results_path e) = Inr content"
  shows "handle super_do_GET e (r\<lparr>req_path := ''/test-results/summary.json''\<rparr>) =
     \<lparr> path = ''/test-results/summary.json'', headers_in = req_headers r,
       sent_status = Some 200,
       sent_headers = [(''Server'', version_string e), (''Date'', date_time_string e),
                       (''Content-type'', ''application/json''),
                       (''Access-Control-Allow-Origin'', ''*'')],
       headers_ended = True, wfile = content,
       fs_ops = [Exists (test_results_path e), OpenRead (test_results_path e)],
       raised = None \<rparr>"
  using assms by (simp add: handle_def do_GET_def handler_ops Let_def)

lemma summary_unopened:
  assumes "path_exists e (test_results_path e) = Inr True"
    and "open_rb_read e (test_results_path e) = Inl err"
  shows "handle super_do_GET e (r\<lparr>req_path := ''/test-results/summary.json''\<rparr>) =
     \<lparr> path = ''/test-results/summary.json'', headers_in = req_headers r,
       sent_status = Some 200,
       sent_headers = [(''Server'', version_string e), (''Date'', date_time_string e),
                       (''Content-type'', ''application/json''),
                       (''Access-Control-Allow-Origin'', ''*'')],
       headers_ended = True, wfile = [],
       fs_ops = [Exists (test_results_path e), OpenRead (test_results_path e)],
       raised = Some err \<rparr>"
  using assms by (simp add: handle_def do_GET_def handler_ops Let_def)

lemma header_content_type:
  "sent_headers h = [(''Server'', v), (''Date'', d), (''Content-type'', ''application/json''),
                     (''Access-Control-Allow-Origin'', ''*'')]
   \<Longrightarrow> header ''Content-Type'' h = Some ''application/json''"
  by (simp add: header_def ascii_lower_def)

lemma header_allow_origin:
  "sent_headers h = [(''Server'', v), (''Date'', d), (''Content-type'', ''application/json''),
                     (''Access-Control-Allow-Origin'', ''*'')]
   \<Longrightarrow> header ''Access-Control-Allow-Origin'' h = Some ''*''"
  by (simp add: header_def ascii_lower_def)

lemma dumps_mock_data:
  \<open>dumps 2 mock_data = concat (map (\<lambda>l. l @ [CHR 0x0A])
     [''{'',
      ''  "timestamp": "2025-01-21T12:00:00Z",'',
      ''  "status": "success",'',
      ''  "total_tests": 437,'',
      ''  "passed": 437,'',
      ''  "failed": 0,'',
      ''  "ignored": 0,'',
      ''  "pass_rate": 100.0,'',
      ''  "test_suites": {'',
      ''    "library": {'',
      ''      "name": "Library Unit Tests",'',
      ''      "count": 396'',
      ''    },'',
      ''    "infrastructure": {'',
      ''      "name": "Infrastructure Integration Tests",'',
      ''      "count": 19'',
      ''    },'',
      ''    "jetstream": {'',
      ''      "name": "JetStream Event Store Tests",'',
      ''      "count": 6'',
      ''    },'',
      ''    "persistence": {'',
      ''      "name": "Persistence Integration Tests",'',
      ''      "count": 7'',
      ''    }'',
      ''  },'',
      ''  "environment": {'',
      ''    "rust_version": "1.75.0",'',
      ''    "nats_required": true,'',
      ''    "nats_endpoint": "localhost:4222"'',
      ''  }'']) @ ''}''\<close>
  by code_simp

lemma encode_mock_data: "encode (dumps 2 mock_data) = dumps 2 mock_data"
  by code_simp

lemma loads_mock_body: "loads_bytes (encode (dumps 2 mock_data)) = Some mock_data"
  by code_simp

lemma mock_data_keys:
  "set [''timestamp'', ''status'', ''total_tests'', ''passed'', ''failed'', ''ignored'',
        ''pass_rate'', ''test_suites'', ''environment''] \<subseteq> set (keys_of mock_data)"
  by (simp add: mock_data_def)

lemma mock_data_totals:
  "int_field ''total_tests'' mock_data = Some 437 \<and> int_field ''passed'' mock_data = Some 437
   \<and> int_field ''failed'' mock_data = Some 0 \<and> int_field ''ignored'' mock_data = Some 0"
  by (simp add: mock_data_def int_field_def)

lemma mock_suite_counts: "suite_counts mock_data = [396, 19, 6, 7]"
  by (simp add: mock_data_def suite_counts_def int_field_def)

lemma butlast_neq: "xs \<noteq> [] \<Longrightarrow> butlast xs \<noteq> xs"
  by (induction xs) auto

lemma same_path_update: "req_path r = s \<Longrightarrow> r\<lparr>req_path := s\<rparr> = r"
  by auto

lemma delegate_other:
  assumes "req_path r \<noteq> ''/''" and "req_path r \<noteq> ''/test-results/summary.json''"
  shows "handle super_do_GET e r = super_do_GET (main_env e) (new_handler r)"
  using assms by (simp add: handle_def do_GET_def new_handler_def)

lemma delegate_root:
  assumes "req_path r = ''/''"
  shows "handle super_do_GET e r
           = super_do_GET (main_env e) ((new_handler r)\<lparr>path := ''/index.html''\<rparr>)"
  using assms by (simp add: handle_def do_GET_def new_handler_def)




lemma summary_depends_on_outcomes:
  assumes pe: "path_exists (e\<lparr>fs := f\<rparr>) (test_results_path e) = path_exists e (test_results_path e)"
    and op: "open_rb_read (e\<lparr>fs := f\<rparr>) (test_results_path e) = open_rb_read e (test_results_path e)"
  shows "handle super1 (e\<lparr>fs := f\<rparr>) (r\<lparr>req_path := ''/test-results/summary.json''\<rparr>)
           = handle super2 e (r\<lparr>req_path := ''/test-results/summary.json''\<rparr>)"
proof -
  let ?e = "e\<lparr>fs := f\<rparr>"
  have p: "test_results_path ?e = test_results_path e"
    by (simp add: test_results_path_def)
  show ?thesis
  proof (cases "path_exists e (test_results_path e)")
    case (Inl err)
    then have 2: "path_exists ?e (test_results_path ?e) = Inl err"
      using pe by (simp add: p)
    show ?thesis
      by (simp add: summary_raises [OF Inl] summary_raises [OF 2] p)
  next
    case (Inr found)
    show ?thesis
    proof (cases found)
      case False
      then have 1: "path_exists e (test_results_path e) = Inr False"
        using Inr by simp
      then have 2: "path_exists ?e (test_results_path ?e) = Inr False"
        using pe by (simp add: p)
      show ?thesis
        by (simp add: summary_absent [OF 1] summary_absent [OF 2] p)
    next
      case True
      then have 1: "path_exists e (test_results_path e) = Inr True"
        using Inr by simp
      then have 2: "path_exists ?e (test_results_path ?e) = Inr True"
        using pe by (simp add: p)
      show ?thesis
      proof (cases "open_rb_read e (test_results_path e)")
        case (Inl err)
        then have 3: "open_rb_read ?e (test_results_path ?e) = Inl err"
          using op by (simp add: p)
        show ?thesis
          by (simp add: summary_unopened [OF 1 Inl] summary_unopened [OF 2 3] p)
      next
        case (Inr b)
        then have 3: "open_rb_read ?e (test_results_path ?e) = Inr b"
          using op by (simp add: p)
        show ?thesis
          by (simp add: summary_file [OF 1 Inr] summary_file [OF 2 3] p)
      qed
    qed
  qed
qed

lemma summary_fs_ops:
  "fs_ops (handle super_do_GET e (r\<lparr>req_path := ''/test-results/summary.json''\<rparr>))
     = Exists (test_results_path e)
         # (if path_exists e (test_results_path e) = Inr True
            then [OpenRead (test_results_path e)] else [])"
proof (cases "path_exists e (test_results_path e)")
  case (Inl err)
  then show ?thesis
    by (simp add: summary_raises [OF Inl])
next
  case (Inr found)
  show ?thesis
  proof (cases found)
    case False
    then have 1: "path_exists e (test_results_path e) = Inr False"
      using Inr by simp
    show ?thesis
      by (simp add: summary_absent [OF 1] 1)
  next
    case True
    then have 1: "path_exists e (test_results_path e) = Inr True"
      using Inr by simp
    show ?thesis
    proof (cases "open_rb_read e (test_results_path e)")
      case (Inl err)
      show ?thesis
        by (simp add: summary_unopened [OF 1 Inl] 1)
    next
      case (Inr b)
      show ?thesis
        by (simp add: summary_file [OF 1 Inr] 1)
    qed
  qed
qed

lemma summary_path_kept:
  "path (handle super_do_GET e (r\<lparr>req_path := ''/test-results/summary.json''\<rparr>))
     = ''/test-results/summary.json''"
proof (cases "path_exists e (test_results_path e)")
  case (Inl err)
  then show ?thesis
    by (simp add: summary_raises [OF Inl])
next
  case (Inr found)
  then show ?thesis
    using summary_fs_ops [of super_do_GET e r]
    by (simp add: handle_def do_GET_def handler_ops Let_def split: sum.splits)
qed

text \<open>The modelled static file serving writes nothing and answers 404 for what is not there.\<close>

lemma send_error_effect:
  "fs_ops (send_error e code message h) = fs_ops h"
  "sent_status (send_error e code message h) = Some code"
  by (simp_all add: send_error_def handler_ops Let_def)

lemma send_file_ops: "fs_ops (send_file e p h) = fs_ops h @ [OpenRead p]"
  by (cases "open_rb_read e p")
    (simp_all add: send_file_def send_error_effect handler_ops Let_def)

lemma send_file_not_found:
  "open_rb_read e p = Inl err \<Longrightarrow> sent_status (send_file e p h) = Some 404"
  by (simp add: send_file_def send_error_effect Let_def)

lemma list_directory_ops: "fs_ops (list_directory e p names h) = fs_ops h @ [ListDir p]"
  by (simp add: list_directory_def handler_ops Let_def)

lemma simple_do_GET_no_writes:
  "filter is_write (fs_ops (simple_do_GET e h)) = filter is_write (fs_ops h)"
proof (cases "stat e (translate_path e (path h))")
  case (Inl err)
  then show ?thesis
    by (simp add: simple_do_GET_def send_file_ops send_error_effect log_op_def Let_def)
next
  case (Inr n)
  show ?thesis
  proof (cases n)
    case (File b r)
    then show ?thesis
      using Inr
      by (simp add: simple_do_GET_def send_file_ops send_error_effect log_op_def Let_def)
  next
    case (Dir names x)
    then show ?thesis
      using Inr
      by (simp add: simple_do_GET_def send_file_ops list_directory_ops handler_ops Let_def)
  qed
qed

lemma handle_no_writes: "filter is_write (fs_ops (handle simple_do_GET e r)) = []"
proof (cases "req_path r = ''/test-results/summary.json''")
  case True
  then show ?thesis
    using summary_fs_ops [of simple_do_GET e r] same_path_update [OF True] by simp
next
  case False
  then show ?thesis
    by (simp add: handle_def do_GET_def simple_do_GET_no_writes new_handler_def)
qed

lemma not_found_open:
  assumes "path_exists e p = Inr False"
  shows "\<exists>err. stat e p = Inl err \<and> open_rb_read e p = Inl err"
  using assms by (cases "stat e p") (simp_all add: path_exists_def open_rb_read_def)

lemma simple_do_GET_not_found:
  assumes "path_exists e (translate_path e (path h)) = Inr False"
  shows "sent_status (simple_do_GET e h) = Some 404"
proof -
  obtain err where s: "stat e (translate_path e (path h)) = Inl err"
    and o: "open_rb_read e (translate_path e (path h)) = Inl err"
    using not_found_open [OF assms] by blast
  show ?thesis
    by (simp add: simple_do_GET_def s send_file_not_found [OF o] send_error_effect Let_def)
qed

text \<open>The example environments.\<close>

lemma example_results_path:
  "test_results_path example_env = [''srv'', ''cim'', ''test-results'', ''summary.json'']"
  "test_results_path example_env_results = [''srv'', ''cim'', ''test-results'', ''summary.json'']"
  "test_results_path example_env_unreadable = [''srv'', ''cim'', ''test-results'', ''summary.json'']"
  "test_results_path example_env_unsearchable
     = [''srv'', ''cim'', ''test-results'', ''summary.json'']"
  "test_results_path example_env_later = [''opt'', ''test-results'', ''summary.json'']"
  "test_results_path example_env_root = [''test-results'', ''summary.json'']"
  by (simp_all add: test_results_path_def example_env_def example_env_results_def
        example_env_unreadable_def example_env_unsearchable_def example_env_later_def
        example_env_root_def parent_def joinpath_def)

lemma example_exists:
  "path_exists example_env [''srv'', ''cim'', ''test-results'', ''summary.json''] = Inr False"
  "path_exists example_env_later [''opt'', ''test-results'', ''summary.json''] = Inr False"
  "path_exists example_env_results [''srv'', ''cim'', ''test-results'', ''summary.json'']
     = Inr True"
  "path_exists example_env_unreadable [''srv'', ''cim'', ''test-results'', ''summary.json'']
     = Inr True"
  "path_exists example_env_unsearchable [''srv'', ''cim'', ''test-results'', ''summary.json'']
     = Inl PermissionError"
  "path_exists example_env_root [''test-results'', ''summary.json''] = Inr True"
  by code_simp+

lemma example_open:
  "open_rb_read example_env_results [''srv'', ''cim'', ''test-results'', ''summary.json'']
     = Inr ''{ }''"
  "open_rb_read example_env_unreadable [''srv'', ''cim'', ''test-results'', ''summary.json'']
     = Inl PermissionError"
  "open_rb_read example_env_root [''test-results'', ''summary.json''] = Inr ''local''"
  by code_simp+

lemma example_nodes:
  "fs example_env [''srv'', ''cim'', ''test-results'', ''summary.json''] = None"
  "fs example_env_unsearchable [''srv'', ''cim'', ''test-results'', ''summary.json''] = None"
  "fs example_env_unreadable [''srv'', ''cim'', ''test-results'', ''summary.json'']
     = Some (File ''{ }'' False)"
  "fs example_env_root [''test-results'', ''summary.json''] = Some (File ''local'' True)"
  by (simp_all add: example_env_def example_env_unsearchable_def example_env_unreadable_def
        example_env_root_def example_fs_def example_results_def)

lemma example_static_index:
  "simple_do_GET (main_env example_env) (new_handler (get_request ''/index.html'')) =
     \<lparr> path = ''/index.html'', headers_in = [(''Host'', ''localhost:8080'')],
       sent_status = Some 200,
       sent_headers = [(''Server'', ''SimpleHTTP/0.6 Python/3.12.3''),
                       (''Date'', ''Tue, 21 Jan 2025 12:00:00 GMT''),
                       (''Content-type'', ''text/html''), (''Content-Length'', ''13'')],
       headers_ended = True, wfile = ''<html></html>'',
       fs_ops = [Exists [''srv'', ''cim'', ''dashboard'', ''index.html''],
                 OpenRead [''srv'', ''cim'', ''dashboard'', ''index.html'']],
       raised = None \<rparr>"
  by code_simp

lemma example_static_missing:
  "path_exists (example_env\<lparr>cwd := parent (script_file example_env)\<rparr>)
     (parent (script_file example_env)
        @ normpath [] (split_slash (url_path (req_path (get_request ''/missing.txt'')))))
     = Inr False"
  by code_simp

lemma example_static_summary:
  "sent_status (simple_do_GET (main_env example_env)
      (new_handler (get_request ''/test-results/summary.json''))) = Some 404"
  by code_simp

lemma mock_body_not_empty: "encode (dumps 2 mock_data) \<noteq> []"
  by code_simp

subsection \<open>The claims\<close>

text \<open>
  C1, as stated, fails: a results file that exists and that the process may not read is
  answered with status 200 and both headers, an empty body instead of the file's bytes,
  and the \<^verbatim>\<open>PermissionError\<close> of \<^verbatim>\<open>open\<close>.
\<close>

theorem unreadable_results_file_is_not_served:
  "fs example_env_unreadable (test_results_path example_env_unreadable)
     = Some (File ''{ }'' False)
   \<and> path_exists example_env_unreadable (test_results_path example_env_unreadable) = Inr True
   \<and> sent_status (handle simple_do_GET example_env_unreadable (get_request ''/test-results/summary.json'')) = Some 200
   \<and> wfile (handle simple_do_GET example_env_unreadable (get_request ''/test-results/summary.json'')) = []
   \<and> wfile (handle simple_do_GET example_env_unreadable (get_request ''/test-results/summary.json'')) \<noteq> ''{ }''
   \<and> raised (handle simple_do_GET example_env_unreadable (get_request ''/test-results/summary.json'')) = Some PermissionError"
proof -
  have a: "path_exists example_env_unreadable (test_results_path example_env_unreadable)
             = Inr True"
    and b: "open_rb_read example_env_unreadable (test_results_path example_env_unreadable)
             = Inl PermissionError"
    by (simp_all add: example_results_path example_exists example_open)
  show ?thesis
    using a summary_unopened [OF a b, of simple_do_GET "get_request ''/''"]
    by (simp add: get_request_def example_results_path example_nodes)
qed

text \<open>
  C1, amended. Whenever the results file, at \<^verbatim>\<open>test-results/summary.json\<close> under the
  parent of the script's directory, exists and can be opened and read (the existence
  check returns true and \<^verbatim>\<open>open\<close> succeeds), a GET for \<^verbatim>\<open>/test-results/summary.json\<close>
  is answered with status 200, \<^verbatim>\<open>Content-Type: application/json\<close>,
  \<^verbatim>\<open>Access-Control-Allow-Origin: *\<close> and a body that is exactly the bytes of that
  file; no exception leaves the handler.
\<close>

theorem results_file_served_verbatim:
  assumes "path_exists e (test_results_path e) = Inr True"
    and "open_rb_read e (test_results_path e) = Inr content"
  shows "sent_status (handle super_do_GET e (r\<lparr>req_path := ''/test-results/summary.json''\<rparr>)) = Some 200
    \<and> header ''Content-Type'' (handle super_do_GET e (r\<lparr>req_path := ''/test-results/summary.json''\<rparr>))
        = Some ''application/json''
    \<and> header ''Access-Control-Allow-Origin''
          (handle super_do_GET e (r\<lparr>req_path := ''/test-results/summary.json''\<rparr>)) = Some ''*''
    \<and> wfile (handle super_do_GET e (r\<lparr>req_path := ''/test-results/summary.json''\<rparr>)) = content
    \<and> raised (handle super_do_GET e (r\<lparr>req_path := ''/test-results/summary.json''\<rparr>)) = None"
proof -
  note h = summary_file [OF assms, of super_do_GET r]
  have "sent_headers (handle super_do_GET e (r\<lparr>req_path := ''/test-results/summary.json''\<rparr>))
          = [(''Server'', version_string e), (''Date'', date_time_string e),
             (''Content-type'', ''application/json''), (''Access-Control-Allow-Origin'', ''*'')]"
    by (simp add: h)
  then show ?thesis
    by (simp add: header_content_type header_allow_origin) (simp add: h)
qed

text \<open>C1 amended, at a concrete filesystem holding a readable results file.\<close>

theorem results_file_served_verbatim_witness:
  "path_exists example_env_results (test_results_path example_env_results) = Inr True
   \<and> open_rb_read example_env_results (test_results_path example_env_results) = Inr ''{ }''
   \<and> sent_status (handle simple_do_GET example_env_results (get_request ''/test-results/summary.json''))
       = Some 200
   \<and> header ''Content-Type''
        (handle simple_do_GET example_env_results (get_request ''/test-results/summary.json''))
       = Some ''application/json''
   \<and> wfile (handle simple_do_GET example_env_results (get_request ''/test-results/summary.json''))
       = ''{ }''"
proof -
  have a: "path_exists example_env_results (test_results_path example_env_results) = Inr True"
    and b: "open_rb_read example_env_results (test_results_path example_env_results)
             = Inr ''{ }''"
    by (simp_all add: example_results_path example_exists example_open)
  show ?thesis
    using a b results_file_served_verbatim [OF a b, of simple_do_GET "get_request ''/''"]
    by (simp add: get_request_def)
qed

text \<open>
  C2, as stated, fails: with no results file, in a \<^verbatim>\<open>test-results\<close> directory that
  the process may not search, the existence check raises \<^verbatim>\<open>PermissionError\<close> and
  the handler sends nothing, neither status nor body.
\<close>

theorem no_results_file_and_no_answer:
  "fs example_env_unsearchable (test_results_path example_env_unsearchable) = None
   \<and> path_exists example_env_unsearchable (test_results_path example_env_unsearchable)
       = Inl PermissionError
   \<and> sent_status (handle simple_do_GET example_env_unsearchable (get_request ''/test-results/summary.json'')) = None
   \<and> wfile (handle simple_do_GET example_env_unsearchable (get_request ''/test-results/summary.json'')) = []
   \<and> raised (handle simple_do_GET example_env_unsearchable (get_request ''/test-results/summary.json'')) = Some PermissionError"
proof -
  have a: "path_exists example_env_unsearchable (test_results_path example_env_unsearchable)
             = Inl PermissionError"
    by (simp add: example_results_path example_exists)
  show ?thesis
    using a summary_raises [OF a, of simple_do_GET "get_request ''/''"]
    by (simp add: get_request_def example_results_path example_nodes)
qed

text \<open>
  C2, amended. Whenever the existence check finds no results file (\<^verbatim>\<open>exists()\<close>
  returns false), a GET for \<^verbatim>\<open>/test-results/summary.json\<close> is answered with status 200
  and the same two headers, and the body is the UTF-8 encoding of
  \<^verbatim>\<open>json.dumps(mock_data, indent=2)\<close>. That body parses back to the mock document, an
  object with the keys timestamp, status, total_tests, passed, failed, ignored,
  pass_rate, test_suites and environment, in which total_tests = passed + failed +
  ignored, namely 437 = 437 + 0 + 0.
\<close>

theorem mock_document_when_results_absent:
  assumes "path_exists e (test_results_path e) = Inr False"
  shows "sent_status (handle super_do_GET e (r\<lparr>req_path := ''/test-results/summary.json''\<rparr>)) = Some 200
    \<and> header ''Content-Type'' (handle super_do_GET e (r\<lparr>req_path := ''/test-results/summary.json''\<rparr>))
        = Some ''application/json''
    \<and> header ''Access-Control-Allow-Origin''
          (handle super_do_GET e (r\<lparr>req_path := ''/test-results/summary.json''\<rparr>)) = Some ''*''
    \<and> wfile (handle super_do_GET e (r\<lparr>req_path := ''/test-results/summary.json''\<rparr>))
        = encode (dumps 2 mock_data)
    \<and> loads_bytes (wfile (handle super_do_GET e (r\<lparr>req_path := ''/test-results/summary.json''\<rparr>)))
        = Some mock_data
    \<and> set [''timestamp'', ''status'', ''total_tests'', ''passed'', ''failed'', ''ignored'',
            ''pass_rate'', ''test_suites'', ''environment''] \<subseteq> set (keys_of mock_data)
    \<and> int_field ''total_tests'' mock_data = Some 437
    \<and> int_field ''passed'' mock_data = Some 437
    \<and> int_field ''failed'' mock_data = Some 0
    \<and> int_field ''ignored'' mock_data = Some 0
    \<and> total_is_sum mock_data"
proof -
  note h = summary_absent [OF assms, of super_do_GET r]
  have hs: "sent_headers (handle super_do_GET e (r\<lparr>req_path := ''/test-results/summary.json''\<rparr>))
          = [(''Server'', version_string e), (''Date'', date_time_string e),
             (''Content-type'', ''application/json''), (''Access-Control-Allow-Origin'', ''*'')]"
    by (simp add: h)
  have w: "wfile (handle super_do_GET e (r\<lparr>req_path := ''/test-results/summary.json''\<rparr>))
          = encode (dumps 2 mock_data)"
    by (simp add: h)
  have s: "sent_status (handle super_do_GET e (r\<lparr>req_path := ''/test-results/summary.json''\<rparr>))
          = Some 200"
    by (simp add: h)
  have t: "total_is_sum mock_data"
    using mock_data_totals by (simp add: total_is_sum_def)
  show ?thesis
    using s w t header_content_type [OF hs] header_allow_origin [OF hs]
      loads_mock_body mock_data_keys mock_data_totals
    by (simp only: simp_thms)
qed

text \<open>C2 amended, at a concrete filesystem without a results file.\<close>

theorem mock_document_when_results_absent_witness:
  "path_exists example_env (test_results_path example_env) = Inr False
   \<and> sent_status (handle simple_do_GET example_env (get_request ''/test-results/summary.json''))
       = Some 200
   \<and> loads_bytes (wfile (handle simple_do_GET example_env
         (get_request ''/test-results/summary.json''))) = Some mock_data"
proof -
  have f: "path_exists example_env (test_results_path example_env) = Inr False"
    by (simp add: example_results_path example_exists)
  show ?thesis
    using f mock_document_when_results_absent [OF f, of simple_do_GET "get_request ''/''"]
    by (simp add: get_request_def loads_mock_body)
qed

text \<open>
  C3, as stated, fails: the counts of the four entries of \<^verbatim>\<open>test_suites\<close> are
  396, 19, 6 and 7, and their sum is not the 437 of \<^verbatim>\<open>total_tests\<close>.
\<close>

theorem suite_counts_sum_is_not_total:
  "int_field ''total_tests'' mock_data = Some 437
   \<and> suite_counts mock_data = [396, 19, 6, 7]
   \<and> sum_list (suite_counts mock_data) \<noteq> 437"
  by (simp add: mock_suite_counts mock_data_totals)

text \<open>
  C3, amended. In the mock payload total_tests = passed + failed + ignored holds as
  437 = 437 + 0 + 0, and the per-suite counts 396, 19, 6 and 7 sum to 428.
\<close>

theorem mock_total_and_suite_counts:
  "total_is_sum mock_data
   \<and> int_field ''total_tests'' mock_data = Some 437
   \<and> int_field ''passed'' mock_data = Some 437
   \<and> int_field ''failed'' mock_data = Some 0
   \<and> int_field ''ignored'' mock_data = Some 0
   \<and> suite_counts mock_data = [396, 19, 6, 7]
   \<and> sum_list (suite_counts mock_data) = 428"
  by (simp add: mock_suite_counts mock_data_totals total_is_sum_def)

text \<open>
  C4. For every filesystem state, request headers and base class, a GET for \<^verbatim>\<open>/\<close>
  leaves the handler in the same final state, hence with the same status, headers and
  body, as a GET for \<^verbatim>\<open>/index.html\<close>.
\<close>

theorem root_same_as_index_html:
  "handle super_do_GET e (r\<lparr>req_path := ''/''\<rparr>)
     = handle super_do_GET e (r\<lparr>req_path := ''/index.html''\<rparr>)"
  by (simp add: handle_def do_GET_def new_handler_def)

text \<open>
  C5. A GET whose path is neither \<^verbatim>\<open>/\<close> nor \<^verbatim>\<open>/test-results/summary.json\<close>
  is handed unchanged to the inherited static file serving, running with the script's own
  directory as working directory, and the handler's response is that mechanism's
  response. The modelled mechanism looks the request path up below the script's
  directory and answers 404 when nothing exists there.
\<close>

theorem other_paths_delegate_to_static_serving:
  assumes "req_path r \<noteq> ''/''" and "req_path r \<noteq> ''/test-results/summary.json''"
  shows "handle super_do_GET e r
           = super_do_GET (e\<lparr>cwd := parent (script_file e)\<rparr>) (new_handler r)
    \<and> path (new_handler r) = req_path r
    \<and> translate_path (e\<lparr>cwd := parent (script_file e)\<rparr>) (req_path r)
        = parent (script_file e) @ normpath [] (split_slash (url_path (req_path r)))
    \<and> (path_exists (e\<lparr>cwd := parent (script_file e)\<rparr>)
          (parent (script_file e) @ normpath [] (split_slash (url_path (req_path r))))
          = Inr False
        \<longrightarrow> sent_status (handle simple_do_GET e r) = Some 404)"
proof -
  let ?e = "e\<lparr>cwd := parent (script_file e)\<rparr>"
  have d: "handle super_do_GET e r = super_do_GET ?e (new_handler r)" for super_do_GET
    using delegate_other [OF assms, of super_do_GET e] by (simp add: main_env_def chdir_def)
  have t: "translate_path ?e (req_path r)
        = parent (script_file e) @ normpath [] (split_slash (url_path (req_path r)))"
    by (simp add: translate_path_def)
  have p: "path (new_handler r) = req_path r"
    by (simp add: new_handler_def)
  have "sent_status (simple_do_GET ?e (new_handler r)) = Some 404"
    if "path_exists ?e
          (parent (script_file e) @ normpath [] (split_slash (url_path (req_path r))))
          = Inr False"
    by (rule simple_do_GET_not_found) (use that t p in simp)
  then show ?thesis
    using d t p by simp
qed

text \<open>
  C5, with the modelled static file serving and a file that does not exist: the answer
  is 404.
\<close>

theorem other_paths_delegate_to_static_serving_witness:
  "req_path (get_request ''/missing.txt'') \<noteq> ''/''
   \<and> req_path (get_request ''/missing.txt'') \<noteq> ''/test-results/summary.json''
   \<and> path_exists (example_env\<lparr>cwd := parent (script_file example_env)\<rparr>)
        (parent (script_file example_env)
           @ normpath [] (split_slash (url_path (req_path (get_request ''/missing.txt'')))))
       = Inr False
   \<and> sent_status (handle simple_do_GET example_env (get_request ''/missing.txt'')) = Some 404"
proof -
  have a: "req_path (get_request ''/missing.txt'') \<noteq> ''/''"
    and b: "req_path (get_request ''/missing.txt'') \<noteq> ''/test-results/summary.json''"
    by (simp_all add: get_request_def)
  have "sent_status (handle simple_do_GET example_env (get_request ''/missing.txt'')) = Some 404"
    using example_static_missing
      other_paths_delegate_to_static_serving [OF a b, of simple_do_GET example_env]
    by blast
  then show ?thesis
    using a b example_static_missing by blast
qed

text \<open>
  C6, as stated, fails: with a \<^verbatim>\<open>test-results\<close> directory that the process may not
  search, a GET for \<^verbatim>\<open>/test-results/summary.json\<close> gets no status line at all, so in
  particular not 200; the request ends in the exception of the existence check.
\<close>

theorem summary_request_without_status:
  "path_exists example_env_unsearchable (test_results_path example_env_unsearchable)
       = Inl PermissionError
   \<and> sent_status (handle simple_do_GET example_env_unsearchable (get_request ''/test-results/summary.json'')) \<noteq> Some 200
   \<and> sent_headers (handle simple_do_GET example_env_unsearchable (get_request ''/test-results/summary.json'')) = []
   \<and> headers_ended (handle simple_do_GET example_env_unsearchable (get_request ''/test-results/summary.json'')) = False
   \<and> raised (handle simple_do_GET example_env_unsearchable (get_request ''/test-results/summary.json'')) = Some PermissionError"
proof -
  have a: "path_exists example_env_unsearchable (test_results_path example_env_unsearchable)
             = Inl PermissionError"
    by (simp add: example_results_path example_exists)
  show ?thesis
    using a summary_raises [OF a, of simple_do_GET "get_request ''/''"]
    by (simp add: get_request_def)
qed

text \<open>
  C6, amended. Whenever the existence check on the results file completes, whether it
  finds the file or not, a GET for \<^verbatim>\<open>/test-results/summary.json\<close> is answered with status
  200; the missing-file case triggers the mock-data fallback and raises nothing. When the
  file is found, the body is its bytes, or empty together with the exception of
  \<^verbatim>\<open>open\<close> if it cannot be opened. When the existence check itself raises, nothing is
  sent.
\<close>

theorem summary_status_200_when_check_completes:
  "(path_exists e (test_results_path e) = Inr found \<longrightarrow>
      sent_status (handle super_do_GET e (r\<lparr>req_path := ''/test-results/summary.json''\<rparr>)) = Some 200)
   \<and> (path_exists e (test_results_path e) = Inr False \<longrightarrow>
        wfile (handle super_do_GET e (r\<lparr>req_path := ''/test-results/summary.json''\<rparr>)) = encode (dumps 2 mock_data)
        \<and> raised (handle super_do_GET e (r\<lparr>req_path := ''/test-results/summary.json''\<rparr>)) = None)
   \<and> (path_exists e (test_results_path e) = Inr True \<longrightarrow>
        wfile (handle super_do_GET e (r\<lparr>req_path := ''/test-results/summary.json''\<rparr>))
          = (case open_rb_read e (test_results_path e) of Inl err \<Rightarrow> [] | Inr b \<Rightarrow> b)
        \<and> raised (handle super_do_GET e (r\<lparr>req_path := ''/test-results/summary.json''\<rparr>))
          = (case open_rb_read e (test_results_path e) of Inl err \<Rightarrow> Some err | Inr b \<Rightarrow> None))
   \<and> (path_exists e (test_results_path e) = Inl err \<longrightarrow>
        sent_status (handle super_do_GET e (r\<lparr>req_path := ''/test-results/summary.json''\<rparr>)) = None
        \<and> wfile (handle super_do_GET e (r\<lparr>req_path := ''/test-results/summary.json''\<rparr>)) = []
        \<and> raised (handle super_do_GET e (r\<lparr>req_path := ''/test-results/summary.json''\<rparr>)) = Some err)"
proof -
  have absent: "sent_status (handle super_do_GET e (r\<lparr>req_path := ''/test-results/summary.json''\<rparr>)) = Some 200
      \<and> wfile (handle super_do_GET e (r\<lparr>req_path := ''/test-results/summary.json''\<rparr>)) = encode (dumps 2 mock_data)
      \<and> raised (handle super_do_GET e (r\<lparr>req_path := ''/test-results/summary.json''\<rparr>)) = None"
    if "path_exists e (test_results_path e) = Inr False"
    by (simp add: summary_absent [OF that])
  have present: "sent_status (handle super_do_GET e (r\<lparr>req_path := ''/test-results/summary.json''\<rparr>)) = Some 200
      \<and> wfile (handle super_do_GET e (r\<lparr>req_path := ''/test-results/summary.json''\<rparr>))
          = (case open_rb_read e (test_results_path e) of Inl err \<Rightarrow> [] | Inr b \<Rightarrow> b)
      \<and> raised (handle super_do_GET e (r\<lparr>req_path := ''/test-results/summary.json''\<rparr>))
          = (case open_rb_read e (test_results_path e) of Inl err \<Rightarrow> Some err | Inr b \<Rightarrow> None)"
    if t: "path_exists e (test_results_path e) = Inr True"
  proof (cases "open_rb_read e (test_results_path e)")
    case (Inl x)
    then show ?thesis
      by (simp add: summary_unopened [OF t Inl])
  next
    case (Inr b)
    then show ?thesis
      by (simp add: summary_file [OF t Inr])
  qed
  have failed: "sent_status (handle super_do_GET e (r\<lparr>req_path := ''/test-results/summary.json''\<rparr>)) = None
      \<and> wfile (handle super_do_GET e (r\<lparr>req_path := ''/test-results/summary.json''\<rparr>)) = []
      \<and> raised (handle super_do_GET e (r\<lparr>req_path := ''/test-results/summary.json''\<rparr>)) = Some err"
    if "path_exists e (test_results_path e) = Inl err"
    by (simp add: summary_raises [OF that])
  have status: "sent_status (handle super_do_GET e (r\<lparr>req_path := ''/test-results/summary.json''\<rparr>)) = Some 200"
    if "path_exists e (test_results_path e) = Inr found"
    using that absent present by (cases found) simp_all
  show ?thesis
    using absent present failed status by blast
qed

text \<open>
  C6 amended, at filesystems without a results file, with a readable one, with an
  unreadable one, and with a directory that may not be searched.
\<close>

theorem summary_status_200_when_check_completes_witness:
  "path_exists example_env_later (test_results_path example_env_later) = Inr False
   \<and> sent_status (handle simple_do_GET example_env_later (get_request ''/test-results/summary.json'')) = Some 200
   \<and> raised (handle simple_do_GET example_env_later (get_request ''/test-results/summary.json'')) = None
   \<and> path_exists example_env_results (test_results_path example_env_results) = Inr True
   \<and> sent_status (handle simple_do_GET example_env_results (get_request ''/test-results/summary.json'')) = Some 200
   \<and> wfile (handle simple_do_GET example_env_results (get_request ''/test-results/summary.json'')) = ''{ }''
   \<and> path_exists example_env_unreadable (test_results_path example_env_unreadable) = Inr True
   \<and> sent_status (handle simple_do_GET example_env_unreadable (get_request ''/test-results/summary.json'')) = Some 200
   \<and> raised (handle simple_do_GET example_env_unreadable (get_request ''/test-results/summary.json'')) = Some PermissionError
   \<and> path_exists example_env_unsearchable (test_results_path example_env_unsearchable)
       = Inl PermissionError
   \<and> sent_status (handle simple_do_GET example_env_unsearchable (get_request ''/test-results/summary.json'')) = None"
  using
    summary_status_200_when_check_completes [of example_env_later False simple_do_GET
      "get_request ''/''" PermissionError]
    summary_status_200_when_check_completes [of example_env_results True simple_do_GET
      "get_request ''/''" PermissionError]
    summary_status_200_when_check_completes [of example_env_unreadable True simple_do_GET
      "get_request ''/''" PermissionError]
    summary_status_200_when_check_completes [of example_env_unsearchable True simple_do_GET
      "get_request ''/''" PermissionError]
  by (simp add: get_request_def example_results_path example_exists example_open)

text \<open>
  C7, as stated, fails: a GET for \<^verbatim>\<open>/index.html\<close>, which is not the summary
  path, makes static file serving open and read a file, here with no results file
  present at all.
\<close>

theorem static_route_reads_a_file:
  "req_path (get_request ''/index.html'') \<noteq> ''/test-results/summary.json''
   \<and> path_exists example_env (test_results_path example_env) = Inr False
   \<and> fs_ops (handle simple_do_GET example_env (get_request ''/index.html''))
       = [Exists [''srv'', ''cim'', ''dashboard'', ''index.html''],
          OpenRead [''srv'', ''cim'', ''dashboard'', ''index.html'']]
   \<and> is_read (OpenRead [''srv'', ''cim'', ''dashboard'', ''index.html''])
   \<and> wfile (handle simple_do_GET example_env (get_request ''/index.html'')) = ''<html></html>''"
proof -
  have a: "req_path (get_request ''/index.html'') \<noteq> ''/''"
    and b: "req_path (get_request ''/index.html'') \<noteq> ''/test-results/summary.json''"
    by (simp_all add: get_request_def)
  have f: "path_exists example_env (test_results_path example_env) = Inr False"
    by (simp add: example_results_path example_exists)
  show ?thesis
    using b f by (simp add: delegate_other [OF a b] example_static_index)
qed

text \<open>
  C7, amended. Handling any GET request performs no filesystem writes. For
  \<^verbatim>\<open>/test-results/summary.json\<close> the handler checks whether the results file exists and
  performs a filesystem read only when it does; when the check finds no file the response
  is constructed purely in memory. For every other path the handler touches no file
  itself and hands the request to static file serving (as \<^verbatim>\<open>/index.html\<close> for
  \<^verbatim>\<open>/\<close>), which reads the requested file or directory from the filesystem.
\<close>

theorem handler_filesystem_effects:
  "filter is_write (fs_ops (handle simple_do_GET e r)) = []
   \<and> (req_path r = ''/test-results/summary.json'' \<longrightarrow>
        fs_ops (handle super_do_GET e r)
          = Exists (test_results_path e)
              # (if path_exists e (test_results_path e) = Inr True
                 then [OpenRead (test_results_path e)] else [])
        \<and> filter is_write (fs_ops (handle super_do_GET e r)) = []
        \<and> (path_exists e (test_results_path e) = Inr False \<longrightarrow>
              wfile (handle super_do_GET e r) = encode (dumps 2 mock_data)
              \<and> filter is_read (fs_ops (handle super_do_GET e r)) = []))
   \<and> (req_path r = ''/'' \<longrightarrow>
        handle super_do_GET e r
          = super_do_GET (main_env e) ((new_handler r)\<lparr>path := ''/index.html''\<rparr>)
        \<and> fs_ops ((new_handler r)\<lparr>path := ''/index.html''\<rparr>) = [])
   \<and> (req_path r \<noteq> ''/'' \<and> req_path r \<noteq> ''/test-results/summary.json'' \<longrightarrow>
        handle super_do_GET e r = super_do_GET (main_env e) (new_handler r)
        \<and> fs_ops (new_handler r) = [])"
proof -
  have 1: "fs_ops (handle super_do_GET e r)
        = Exists (test_results_path e)
              # (if path_exists e (test_results_path e) = Inr True
                 then [OpenRead (test_results_path e)] else [])"
    if "req_path r = ''/test-results/summary.json''"
    using summary_fs_ops [of super_do_GET e r] same_path_update [OF that] by simp
  have 2: "wfile (handle super_do_GET e r) = encode (dumps 2 mock_data)"
    if "req_path r = ''/test-results/summary.json''"
      and "path_exists e (test_results_path e) = Inr False"
    using summary_absent [OF that(2), of super_do_GET r] same_path_update [OF that(1)]
    by simp
  have 3: "fs_ops (new_handler r) = []"
    by (simp add: new_handler_def)
  have 4: "filter is_write (fs_ops (handle simple_do_GET e r)) = []"
    by (rule handle_no_writes)
  show ?thesis
    using 1 2 3 4 by (auto simp: delegate_root delegate_other)
qed

text \<open>
  C7 amended, at the summary path with and without a results file, at
  \<^verbatim>\<open>/\<close> and at another path.
\<close>

theorem handler_filesystem_effects_witness:
  "filter is_write (fs_ops (handle simple_do_GET example_env (get_request ''/index.html''))) = []
   \<and> req_path (get_request ''/test-results/summary.json'') = ''/test-results/summary.json''
   \<and> path_exists example_env_results (test_results_path example_env_results) = Inr True
   \<and> fs_ops (handle simple_do_GET example_env_results (get_request ''/test-results/summary.json''))
       = [Exists [''srv'', ''cim'', ''test-results'', ''summary.json''],
          OpenRead [''srv'', ''cim'', ''test-results'', ''summary.json'']]
   \<and> path_exists example_env (test_results_path example_env) = Inr False
   \<and> fs_ops (handle simple_do_GET example_env (get_request ''/test-results/summary.json''))
       = [Exists [''srv'', ''cim'', ''test-results'', ''summary.json'']]
   \<and> wfile (handle simple_do_GET example_env (get_request ''/test-results/summary.json''))
       = encode (dumps 2 mock_data)
   \<and> req_path (get_request ''/'') = ''/''
   \<and> handle simple_do_GET example_env (get_request ''/'')
       = simple_do_GET (main_env example_env)
           ((new_handler (get_request ''/''))\<lparr>path := ''/index.html''\<rparr>)
   \<and> req_path (get_request ''/style.css'') \<noteq> ''/''
   \<and> req_path (get_request ''/style.css'') \<noteq> ''/test-results/summary.json''
   \<and> handle simple_do_GET example_env (get_request ''/style.css'')
       = simple_do_GET (main_env example_env) (new_handler (get_request ''/style.css''))"
proof -
  have w: "filter is_write
      (fs_ops (handle simple_do_GET example_env (get_request ''/index.html''))) = []"
    using handler_filesystem_effects [of example_env "get_request ''/index.html''" simple_do_GET]
    by blast
  show ?thesis
  using w
    handler_filesystem_effects [of example_env_results "get_request ''/test-results/summary.json''"
      simple_do_GET]
    handler_filesystem_effects [of example_env "get_request ''/test-results/summary.json''"
      simple_do_GET]
    handler_filesystem_effects [of example_env "get_request ''/''" simple_do_GET]
    handler_filesystem_effects [of example_env "get_request ''/style.css''" simple_do_GET]
  by (simp add: get_request_def example_results_path example_exists)
qed




text \<open>
  C9, as stated, fails: \<^verbatim>\<open>/test-results/summary.json\<close> is a path beginning with
  \<^verbatim>\<open>/\<close> and different from \<^verbatim>\<open>/\<close>, yet it is not handled by static file
  serving, which would answer 404 here where the handler answers 200.
\<close>

theorem summary_path_is_not_handled_statically:
  "hd ''/test-results/summary.json'' = CHR ''/''
   \<and> ''/test-results/summary.json'' \<noteq> ''/''
   \<and> sent_status (handle simple_do_GET example_env (get_request ''/test-results/summary.json''))
       = Some 200
   \<and> sent_status (simple_do_GET (main_env example_env)
        (new_handler (get_request ''/test-results/summary.json''))) = Some 404"
proof -
  have c: "path_exists example_env (test_results_path example_env) = Inr False"
    by (simp add: example_results_path example_exists)
  have "sent_status (handle simple_do_GET example_env
          ((get_request ''/'')\<lparr>req_path := ''/test-results/summary.json''\<rparr>)) = Some 200"
    by (simp add: summary_absent [OF c])
  then show ?thesis
    using example_static_summary by (simp add: get_request_def)
qed

text \<open>
  C9, amended. Only the path \<^verbatim>\<open>/\<close> is rewritten to \<^verbatim>\<open>/index.html\<close>. Every
  other path except \<^verbatim>\<open>/test-results/summary.json\<close>, for instance \<^verbatim>\<open>/\<close>
  followed by a query string, reaches static file serving unchanged; the summary path is
  answered by the handler itself, without rewriting and without the inherited
  \<^verbatim>\<open>do_GET\<close>.
\<close>

theorem index_rewrite_only_for_root:
  "(req_path r = ''/'' \<longrightarrow>
      handle super_do_GET e r
        = super_do_GET (main_env e) ((new_handler r)\<lparr>path := ''/index.html''\<rparr>))
   \<and> (req_path r \<noteq> ''/'' \<and> req_path r \<noteq> ''/test-results/summary.json'' \<longrightarrow>
        handle super_do_GET e r = super_do_GET (main_env e) (new_handler r)
        \<and> path (new_handler r) = req_path r)
   \<and> handle super_do_GET e (r\<lparr>req_path := CHR ''/'' # CHR ''?'' # query\<rparr>)
       = super_do_GET (main_env e) (new_handler (r\<lparr>req_path := CHR ''/'' # CHR ''?'' # query\<rparr>))
   \<and> (req_path r = ''/test-results/summary.json'' \<longrightarrow>
        path (handle super_do_GET e r) = ''/test-results/summary.json''
        \<and> handle super_do_GET e r = handle other_do_GET e r)"
proof -
  have 1: "handle super_do_GET e (r\<lparr>req_path := CHR ''/'' # CHR ''?'' # query\<rparr>)
       = super_do_GET (main_env e) (new_handler (r\<lparr>req_path := CHR ''/'' # CHR ''?'' # query\<rparr>))"
    by (rule delegate_other) simp_all
  have 2: "handle super_do_GET e r = handle other_do_GET e r"
    if "req_path r = ''/test-results/summary.json''"
    using summary_depends_on_outcomes
        [where e = e and f = "fs e" and ?super1.0 = super_do_GET and r = r
           and ?super2.0 = other_do_GET]
      same_path_update [OF that]
    by simp
  have 3: "path (handle super_do_GET e r) = ''/test-results/summary.json''"
    if "req_path r = ''/test-results/summary.json''"
    using summary_path_kept [of super_do_GET e r] same_path_update [OF that] by simp
  show ?thesis
    using 1 2 3 by (auto simp: delegate_root delegate_other new_handler_def)
qed

text \<open>C9 amended, at \<^verbatim>\<open>/\<close>, at \<^verbatim>\<open>/?x=1\<close> and at the summary path.\<close>

theorem index_rewrite_only_for_root_witness:
  "req_path (get_request ''/'') = ''/''
   \<and> handle simple_do_GET example_env (get_request ''/'')
       = simple_do_GET (main_env example_env)
           ((new_handler (get_request ''/''))\<lparr>path := ''/index.html''\<rparr>)
   \<and> req_path (get_request ''/?x=1'') \<noteq> ''/''
   \<and> req_path (get_request ''/?x=1'') \<noteq> ''/test-results/summary.json''
   \<and> handle simple_do_GET example_env (get_request ''/?x=1'')
       = simple_do_GET (main_env example_env) (new_handler (get_request ''/?x=1''))
   \<and> path (new_handler (get_request ''/?x=1'')) = ''/?x=1''
   \<and> req_path (get_request ''/test-results/summary.json'') = ''/test-results/summary.json''
   \<and> handle simple_do_GET example_env (get_request ''/test-results/summary.json'')
       = handle (\<lambda>e h. h) example_env (get_request ''/test-results/summary.json'')"
  using index_rewrite_only_for_root [of "get_request ''/''" simple_do_GET example_env "''''"
      "\<lambda>e h. h"]
    index_rewrite_only_for_root [of "get_request ''/?x=1''" simple_do_GET example_env "''''"
      "\<lambda>e h. h"]
    index_rewrite_only_for_root [of "get_request ''/test-results/summary.json''" simple_do_GET
      example_env "''''" "\<lambda>e h. h"]
  by (simp add: get_request_def)

text \<open>
  C10, as stated, fails: of two requests for \<^verbatim>\<open>/test-results/summary.json\<close> made while
  no results file exists, one receives the mock document and the other, whose
  \<^verbatim>\<open>test-results\<close> directory may not be searched, receives no body.
\<close>

theorem bodies_differ_when_check_raises:
  "fs example_env (test_results_path example_env) = None
   \<and> fs example_env_unsearchable (test_results_path example_env_unsearchable) = None
   \<and> wfile (handle simple_do_GET example_env (get_request ''/test-results/summary.json'')) = encode (dumps 2 mock_data)
   \<and> wfile (handle simple_do_GET example_env_unsearchable (get_request ''/test-results/summary.json'')) = []
   \<and> wfile (handle simple_do_GET example_env (get_request ''/test-results/summary.json''))
       \<noteq> wfile (handle simple_do_GET example_env_unsearchable (get_request ''/test-results/summary.json''))"
proof -
  have a: "path_exists example_env (test_results_path example_env) = Inr False"
    and b: "path_exists example_env_unsearchable (test_results_path example_env_unsearchable)
             = Inl PermissionError"
    by (simp_all add: example_results_path example_exists)
  show ?thesis
    using summary_absent [OF a, of simple_do_GET "get_request ''/''"]
      summary_raises [OF b, of simple_do_GET "get_request ''/''"] mock_body_not_empty
    by (simp add: get_request_def example_results_path example_nodes)
qed

text \<open>
  C10, amended. Whenever the existence check finds no results file (\<^verbatim>\<open>exists()\<close>
  returns false), the body answered for \<^verbatim>\<open>/test-results/summary.json\<close> is the same for
  any two requests, whatever their headers, the time, the script's location, the rest of
  the filesystem and the base class: it is the encoding of the serialised constant.
\<close>

theorem mock_body_is_deterministic:
  assumes "path_exists e1 (test_results_path e1) = Inr False"
    and "path_exists e2 (test_results_path e2) = Inr False"
  shows "wfile (handle super1 e1 (r1\<lparr>req_path := ''/test-results/summary.json''\<rparr>))
           = wfile (handle super2 e2 (r2\<lparr>req_path := ''/test-results/summary.json''\<rparr>))
    \<and> wfile (handle super1 e1 (r1\<lparr>req_path := ''/test-results/summary.json''\<rparr>))
           = encode (dumps 2 mock_data)"
  by (simp add: summary_absent [OF assms(1)] summary_absent [OF assms(2)])

text \<open>C10 amended, for two requests with different headers at different times and places.\<close>

theorem mock_body_is_deterministic_witness:
  "path_exists example_env (test_results_path example_env) = Inr False
   \<and> path_exists example_env_later (test_results_path example_env_later) = Inr False
   \<and> date_time_string example_env \<noteq> date_time_string example_env_later
   \<and> wfile (handle simple_do_GET example_env (get_request ''/test-results/summary.json''))
       = wfile (handle (\<lambda>e h. h) example_env_later
           \<lparr> req_path = ''/test-results/summary.json'',
             req_headers = [(''Accept'', ''text/html''), (''X-Seen'', ''twice'')] \<rparr>)"
proof -
  have f: "path_exists example_env (test_results_path example_env) = Inr False"
    and g: "path_exists example_env_later (test_results_path example_env_later) = Inr False"
    by (simp_all add: example_results_path example_exists)
  have d: "date_time_string example_env \<noteq> date_time_string example_env_later"
    by (simp add: example_env_def example_env_later_def)
  show ?thesis
    using f g d
      mock_body_is_deterministic [OF f g, of simple_do_GET "get_request ''/''" "\<lambda>e h. h"
        "\<lparr> req_path = ''/'', req_headers = [(''Accept'', ''text/html''), (''X-Seen'', ''twice'')] \<rparr>"]
    by (simp add: get_request_def)
qed

end
